theory Spec2Isabelle
  imports Complex_Main
begin

unbundle bit_operations_syntax

section \<open>Python values and exceptions\<close>

text \<open>
  The numbers of the program are Python floats (the state-space matrices are parsed with
  \<^verbatim>\<open>float\<close>) and small integers; both are modelled as \<^typ>\<open>real\<close>, without rounding.
  An exception the source can raise is a value of \<open>exn\<close>; a function that can raise
  returns \<open>exn + 'a\<close>, with \<open>Inl\<close> for the exception.
\<close>

datatype exn = IndexError | TypeError | AttributeError | ZeroDivisionError

fun bind :: "exn + 'a \<Rightarrow> ('a \<Rightarrow> exn + 'b) \<Rightarrow> exn + 'b" where
  "bind (Inl e) f = Inl e"
| "bind (Inr x) f = f x"

text \<open>\<^verbatim>\<open>xs[i]\<close> for an index \<open>i \<ge> 0\<close>: Python raises IndexError out of range.\<close>

definition item :: "'a list \<Rightarrow> nat \<Rightarrow> exn + 'a" where
  "item xs i = (if i < length xs then Inr (xs ! i) else Inl IndexError)"

text \<open>
  A \<^verbatim>\<open>for\<close> loop that appends one computed element per iteration (\<open>mapM\<close>), and one
  that updates an accumulator (\<open>foldM\<close>); both stop at the first exception.
\<close>

fun mapM :: "('a \<Rightarrow> exn + 'b) \<Rightarrow> 'a list \<Rightarrow> exn + 'b list" where
  "mapM f [] = Inr []"
| "mapM f (x # xs) = bind (f x) (\<lambda>y. bind (mapM f xs) (\<lambda>ys. Inr (y # ys)))"

fun foldM :: "('b \<Rightarrow> 'a \<Rightarrow> exn + 'b) \<Rightarrow> 'b \<Rightarrow> 'a list \<Rightarrow> exn + 'b" where
  "foldM f acc [] = Inr acc"
| "foldM f acc (x # xs) = bind (f acc x) (\<lambda>acc'. foldM f acc' xs)"

section \<open>The Matrix class\<close>

text \<open>
  A \<^verbatim>\<open>Matrix\<close> object holds \<^verbatim>\<open>data\<close> (a list of rows); \<^verbatim>\<open>height\<close> and \<^verbatim>\<open>width\<close> are
  computed from it by the constructor and never assigned again, so they are functions of
  the data: \<^verbatim>\<open>len(data)\<close>, and \<^verbatim>\<open>len(data[0])\<close> if there is a row, else 0. The rows after
  the first may be of any length.
\<close>

datatype matrix = Matrix (getmatrix: "real list list")

definition getheight :: "matrix \<Rightarrow> nat" where
  "getheight m = length (getmatrix m)"

definition getwidth :: "matrix \<Rightarrow> nat" where
  "getwidth m = (case getmatrix m of [] \<Rightarrow> 0 | row # _ \<Rightarrow> length row)"

text \<open>\<^verbatim>\<open>self.data[i][j]\<close>.\<close>

definition elem :: "matrix \<Rightarrow> nat \<Rightarrow> nat \<Rightarrow> exn + real" where
  "elem m i j = bind (item (getmatrix m) i) (\<lambda>row. item row j)"

text \<open>
  The values that the methods of the class take and hand back, and that the attributes of
  the simulator hold: a number, a \<^verbatim>\<open>Matrix\<close>, or a string. \<^verbatim>\<open>det\<close>, \<^verbatim>\<open>__add__\<close> and
  \<^verbatim>\<open>__mul__\<close> return the string \<^verbatim>\<open>"Error"\<close> on a shape mismatch (they do not raise); the
  specification calls this outcome ShapeError.
\<close>

datatype pyval = Num real | Mat matrix | Str string

abbreviation ErrorStr :: pyval where
  "ErrorStr \<equiv> Str ''Error''"

text \<open>
  \<^verbatim>\<open>sub(self, y, x)\<close>: the rows \<open>i \<noteq> x\<close>, and of each the entries \<open>j \<noteq> y\<close>.
\<close>

definition sub :: "matrix \<Rightarrow> nat \<Rightarrow> nat \<Rightarrow> exn + matrix" where
  "sub m y x =
     bind (mapM (\<lambda>i. mapM (\<lambda>j. elem m i j) (filter (\<lambda>j. j \<noteq> y) [0..<getwidth m]))
                (filter (\<lambda>i. i \<noteq> x) [0..<getheight m]))
          (\<lambda>r. Inr (Matrix r))"

lemma bind_cong [fundef_cong]:
  "m = m' \<Longrightarrow> (\<And>x. m' = Inr x \<Longrightarrow> f x = g x) \<Longrightarrow> bind m f = bind m' g"
  by (cases m') auto

lemma foldM_cong [fundef_cong]:
  "xs = ys \<Longrightarrow> a = b \<Longrightarrow> (\<And>acc x. x \<in> set ys \<Longrightarrow> f acc x = g acc x)
   \<Longrightarrow> foldM f a xs = foldM g b ys"
proof (induction ys arbitrary: xs a b)
  case Nil
  then show ?case by simp
next
  case (Cons y ys)
  have step: "f b y = g b y" using Cons.prems(3) by simp
  have rest: "\<And>c. foldM f c ys = foldM g c ys"
    using Cons.IH [OF refl refl] Cons.prems(3) by simp
  show ?case using Cons.prems(1,2) step rest by simp
qed

lemma mapM_length: "mapM f xs = Inr ys \<Longrightarrow> length ys = length xs"
proof (induction xs arbitrary: ys)
  case Nil
  then show ?case by simp
next
  case (Cons x xs)
  then show ?case
    by (cases "f x"; cases "mapM f xs") auto
qed

lemma length_filter_neq_upt:
  "x < n \<Longrightarrow> length (filter (\<lambda>i. i \<noteq> x) [0..<n]) = n - 1"
proof -
  assume x: "x < n"
  have "length (filter (\<lambda>i. i \<noteq> x) [0..<n]) = card {i. i < n \<and> i \<noteq> x}"
    by (auto simp: length_filter_conv_card intro!: arg_cong [where f = card])
  also have "{i. i < n \<and> i \<noteq> x} = {..<n} - {x}" by auto
  also have "card ({..<n} - {x}) = n - 1" using x by simp
  finally show ?thesis .
qed

lemma sub_height:
  "sub m y x = Inr r \<Longrightarrow> x < getheight m \<Longrightarrow> getheight r = getheight m - 1"
  unfolding sub_def
  by (auto simp: getheight_def length_filter_neq_upt
           dest!: mapM_length
           elim!: bind.elims)

text \<open>
  \<^verbatim>\<open>det(self)\<close>. The loop adds \<^verbatim>\<open>self.data[0][i] * r.det() * ((-1)**i)\<close> to \<open>t\<close> for
  \<^verbatim>\<open>r = self.sub(0, i)\<close>; a product of a float with the string \<^verbatim>\<open>"Error"\<close> raises
  TypeError.
\<close>

function det :: "matrix \<Rightarrow> exn + pyval" where
  "det m =
     (if getheight m \<noteq> getwidth m then Inr ErrorStr
      else if getwidth m = 1 then bind (elem m 0 0) (\<lambda>a. Inr (Num a))
      else bind (foldM (\<lambda>t i.
                   bind (sub m 0 i) (\<lambda>r.
                   bind (elem m 0 i) (\<lambda>a.
                   bind (det r) (\<lambda>d.
                     case d of Num dv \<Rightarrow> Inr (t + a * dv * ((- 1) ^ i))
                             | _ \<Rightarrow> Inl TypeError))))
                 0 [0..<getheight m])
           (\<lambda>t. Inr (Num t)))"
  by pat_completeness auto
termination
proof (relation "measure getheight")
  show "wf (measure getheight)" by simp
next
  fix m :: matrix and t :: real and i r a
  assume "i \<in> set [0..<getheight m]" and "sub m 0 i = Inr r"
  then show "(r, m) \<in> measure getheight"
    using sub_height [of m 0 i r] by auto
qed

declare det.simps [simp del]

text \<open>
  \<^verbatim>\<open>__add__(self, other)\<close>, for \<open>other\<close> a \<^verbatim>\<open>Matrix\<close>.
\<close>

definition add :: "matrix \<Rightarrow> matrix \<Rightarrow> exn + pyval" where
  "add m other =
     (if getheight m \<noteq> getheight other \<or> getwidth m \<noteq> getwidth other then Inr ErrorStr
      else bind (mapM (\<lambda>i. mapM (\<lambda>j. bind (elem m i j) (\<lambda>a.
                                     bind (elem other i j) (\<lambda>b. Inr (a + b))))
                                [0..<getwidth m])
                      [0..<getheight m])
                (\<lambda>result. Inr (Mat (Matrix result))))"

text \<open>
  \<^verbatim>\<open>__mul__(self, other)\<close>: the branch for a \<^verbatim>\<open>Matrix\<close> operand is \<open>mul_matrix\<close>; every
  other operand takes the scalar branch, which multiplies each entry by it. There a float
  entry times a string raises TypeError.
\<close>

definition mul_matrix :: "matrix \<Rightarrow> matrix \<Rightarrow> exn + pyval" where
  "mul_matrix m other =
     (if getwidth m \<noteq> getheight other then Inr ErrorStr
      else bind (mapM (\<lambda>i. mapM (\<lambda>j. foldM (\<lambda>sum_val k.
                                            bind (elem m i k) (\<lambda>a.
                                            bind (elem other k j) (\<lambda>b.
                                              Inr (sum_val + a * b))))
                                          0 [0..<getwidth m])
                                [0..<getwidth other])
                      [0..<getheight m])
                (\<lambda>result. Inr (Mat (Matrix result))))"

definition mul_scalar :: "matrix \<Rightarrow> (real \<Rightarrow> exn + real) \<Rightarrow> exn + pyval" where
  "mul_scalar m times_other =
     bind (mapM (\<lambda>i. mapM (\<lambda>j. bind (elem m i j) times_other) [0..<getwidth m])
                [0..<getheight m])
          (\<lambda>result. Inr (Mat (Matrix result)))"

definition mul :: "matrix \<Rightarrow> pyval \<Rightarrow> exn + pyval" where
  "mul m other =
     (case other of
        Mat other_m \<Rightarrow> mul_matrix m other_m
      | Num k \<Rightarrow> mul_scalar m (\<lambda>a. Inr (a * k))
      | Str s \<Rightarrow> mul_scalar m (\<lambda>a. Inl TypeError))"

definition rmul :: "matrix \<Rightarrow> pyval \<Rightarrow> exn + pyval" where
  "rmul m other = mul m other"

text \<open>
  The operators \<^verbatim>\<open>x + y\<close> and \<^verbatim>\<open>x * y\<close> as Python dispatches them on these values. A
  \<^verbatim>\<open>Matrix\<close> on the left calls its method; \<^verbatim>\<open>__add__\<close> reads \<^verbatim>\<open>other.height\<close>, which a
  number or a string does not have (AttributeError). There is no \<^verbatim>\<open>__radd__\<close>, so a number
  or string plus a \<^verbatim>\<open>Matrix\<close> is a TypeError; \<^verbatim>\<open>__rmul__\<close> takes a product whose right
  operand is a \<^verbatim>\<open>Matrix\<close>. A string times a float, in either order, is a TypeError.
\<close>

fun py_add :: "pyval \<Rightarrow> pyval \<Rightarrow> exn + pyval" where
  "py_add (Mat m) (Mat other) = add m other"
| "py_add (Mat m) _ = Inl AttributeError"
| "py_add (Num a) (Num b) = Inr (Num (a + b))"
| "py_add (Str s) (Str t) = Inr (Str (s @ t))"
| "py_add _ _ = Inl TypeError"

fun py_mul :: "pyval \<Rightarrow> pyval \<Rightarrow> exn + pyval" where
  "py_mul (Mat m) other = mul m other"
| "py_mul (Num a) (Num b) = Inr (Num (a * b))"
| "py_mul other (Mat m) = rmul m other"
| "py_mul _ _ = Inl TypeError"

section \<open>The flight simulator\<close>

text \<open>
  The aircraft is an entity of the game engine: the simulator reads and writes its position
  and its three rotation angles. The engine derives the entity's \<^verbatim>\<open>forward\<close>, \<^verbatim>\<open>up\<close> and
  \<^verbatim>\<open>right\<close> vectors from its rotation; the engine is not part of the repository, so these
  three are parameters of the model. Rendering (sky, ground, camera, the bars and texts of
  the overlay, the panel and the buttons of the pause menu, the mouse) holds no state that
  the simulation reads back and is left out, apart from the arithmetic of the overlay,
  which is kept because it could raise.
\<close>

type_synonym vec3 = "real \<times> real \<times> real"

definition vec_add :: "vec3 \<Rightarrow> vec3 \<Rightarrow> vec3" where
  "vec_add p q = (case (p, q) of ((a, b, c), (d, e, f)) \<Rightarrow> (a + d, b + e, c + f))"

definition vec_scale :: "vec3 \<Rightarrow> real \<Rightarrow> vec3" where
  "vec_scale p k = (case p of (a, b, c) \<Rightarrow> (a * k, b * k, c * k))"

record entity =
  position :: vec3
  rotation_x :: real
  rotation_y :: real
  rotation_z :: real

definition y_of :: "entity \<Rightarrow> real" where
  "y_of e = fst (snd (position e))"

record engine =
  forward :: "entity \<Rightarrow> vec3"
  up :: "entity \<Rightarrow> vec3"
  right :: "entity \<Rightarrow> vec3"

text \<open>The attributes of \<^verbatim>\<open>FlightSimulator\<close> that the simulation reads or writes.\<close>

record flight_simulator =
  plane :: entity
  A :: matrix
  B :: matrix
  C :: matrix
  D :: matrix
  state_long :: pyval
  state_lat :: pyval
  dt :: real
  flight_time :: real
  run :: bool
  menu_active :: bool
  crashed :: bool
  ground_y :: real
  elevator :: real
  aileron :: real
  rudder :: real
  time_data :: "real list"
  aoa_data :: "real list"
  velocity_data :: "real list"
  gforce_data :: "real list"
  altitude_data :: "real list"
  flight_data :: "(real list \<times> real list \<times> real list \<times> real list \<times> real list) option"

text \<open>
  \<^verbatim>\<open>setup_physics\<close> and \<^verbatim>\<open>__init__\<close>, from \<^verbatim>\<open>matrix_combo\<close>, the rows parsed from the
  matrix file. A Python slice never raises: it yields the rows that exist.
\<close>

definition slice :: "'a list \<Rightarrow> nat \<Rightarrow> nat \<Rightarrow> 'a list" where
  "slice xs lo hi = take (hi - lo) (drop lo xs)"

definition init :: "real list list \<Rightarrow> flight_simulator" where
  "init matrix_combo =
     \<lparr> plane = \<lparr> position = (0, - 2, 20), rotation_x = 0, rotation_y = 0, rotation_z = 0 \<rparr>,
       A = Matrix (slice matrix_combo 0 4),
       B = Matrix (slice matrix_combo 4 8),
       C = Matrix (slice matrix_combo 8 12),
       D = Matrix (slice matrix_combo 12 16),
       state_long = Mat (Matrix [[0], [0], [0], [0]]),
       state_lat = Mat (Matrix [[0], [0], [0], [0]]),
       dt = 0.01667,
       flight_time = 0,
       run = True,
       menu_active = False,
       crashed = False,
       ground_y = - 100,
       elevator = 0,
       aileron = 0,
       rudder = 0,
       time_data = [],
       aoa_data = [],
       velocity_data = [],
       gforce_data = [],
       altitude_data = [],
       flight_data = None \<rparr>"

text \<open>
  \<^verbatim>\<open>update_control_surface\<close>. \<open>held_keys\<close> tells which keys are held during the tick.
\<close>

definition update_control_surface ::
  "(string \<Rightarrow> bool) \<Rightarrow> flight_simulator \<Rightarrow> real \<Rightarrow> string \<Rightarrow> string \<Rightarrow> real \<Rightarrow> real" where
  "update_control_surface held_keys s control increase_key decrease_key maximum =
     (let control =
            (if held_keys increase_key \<and> control < maximum then control + 3 * dt s
             else if held_keys decrease_key \<and> control > - maximum then control - 3 * dt s
             else if control > 0 then control - 5 * dt s
             else if control < 0 then control + 5 * dt s
             else control)
      in if \<bar>control\<bar> < 10 * dt s \<and> \<not> (held_keys increase_key \<or> held_keys decrease_key)
         then 0 else control)"

definition update_control_inputs :: "(string \<Rightarrow> bool) \<Rightarrow> flight_simulator \<Rightarrow> flight_simulator" where
  "update_control_inputs held_keys s =
     (let s = s\<lparr>elevator := update_control_surface held_keys s (elevator s) ''w'' ''s'' 5\<rparr>;
          s = s\<lparr>aileron := update_control_surface held_keys s (aileron s) ''e'' ''q'' 5\<rparr>;
          s = s\<lparr>rudder := update_control_surface held_keys s (rudder s) ''a'' ''d'' 5\<rparr>
      in s)"

text \<open>
  \<^verbatim>\<open>update_state_vectors\<close>. \<^verbatim>\<open>x += e\<close> on an attribute holding a \<^verbatim>\<open>Matrix\<close> is
  \<^verbatim>\<open>x = x + e\<close>, since the class has no \<^verbatim>\<open>__iadd__\<close>.
\<close>

definition update_state_vectors :: "flight_simulator \<Rightarrow> exn + flight_simulator" where
  "update_state_vectors s =
     bind (py_mul (Mat (A s)) (state_long s)) (\<lambda>ax.
     bind (py_mul (Mat (B s)) (Num (elevator s))) (\<lambda>bu.
     bind (py_add ax bu) (\<lambda>xdot.
     bind (py_mul xdot (Num (dt s))) (\<lambda>delta.
     bind (py_add (state_long s) delta) (\<lambda>new_long.
     let s = s\<lparr>state_long := new_long\<rparr> in
     bind (py_mul (Mat (C s)) (state_lat s)) (\<lambda>cx.
     bind (py_mul (Mat (D s)) (Mat (Matrix [[aileron s], [rudder s]]))) (\<lambda>du.
     bind (py_add cx du) (\<lambda>xdot.
     bind (py_mul xdot (Num (dt s))) (\<lambda>delta.
     bind (py_add (state_lat s) delta) (\<lambda>new_lat.
     Inr (s\<lparr>state_lat := new_lat\<rparr>)))))))))))"

text \<open>\<^verbatim>\<open>v.getmatrix()[i][j]\<close>: only a \<^verbatim>\<open>Matrix\<close> has the method.\<close>

definition entry :: "pyval \<Rightarrow> nat \<Rightarrow> nat \<Rightarrow> exn + real" where
  "entry v i j = (case v of Mat m \<Rightarrow> elem m i j | _ \<Rightarrow> Inl AttributeError)"

text \<open>
  \<^verbatim>\<open>update_plane\<close>, in two parts: the local variables it computes from the state vectors
  (\<open>kinematics\<close>), in the order of the source, and the assignments to the entity.
\<close>

record kinematics =
  sidelip_angle :: real
  pitch_angle :: real
  yaw_angle :: real
  roll_angle :: real
  cruise_speed :: real
  v :: real
  fv :: real
  vv :: real
  hv :: real

definition plane_kinematics :: "flight_simulator \<Rightarrow> exn + kinematics" where
  "plane_kinematics s =
     bind (entry (state_lat s) 0 0) (\<lambda>beta.
     bind (entry (state_long s) 2 0) (\<lambda>theta.
     bind (entry (state_lat s) 2 0) (\<lambda>psi.
     bind (entry (state_lat s) 3 0) (\<lambda>phi.
     bind (elem (A s) 1 2) (\<lambda>cruise.
     bind (entry (state_long s) 0 0) (\<lambda>u.
     bind (entry (state_long s) 1 0) (\<lambda>w.
     Inr \<lparr> sidelip_angle = beta / 57.2958,
           pitch_angle = - theta / 57.2958,
           yaw_angle = psi / 57.2958,
           roll_angle = phi / 57.2958,
           cruise_speed = cruise,
           v = u + cruise,
           fv = (u + cruise) * cos (beta / 57.2958),
           vv = w,
           hv = (u + cruise) * sin (beta / 57.2958) \<rparr>)))))))"

definition update_plane :: "engine \<Rightarrow> flight_simulator \<Rightarrow> exn + flight_simulator" where
  "update_plane eng s =
     bind (plane_kinematics s) (\<lambda>k.
     let movment_scale = 1 / 1000;
         p = plane s;
         p = p\<lparr>rotation_x := rotation_x p
                + 57.2958 * (pitch_angle k * cos (roll_angle k) + yaw_angle k * sin (roll_angle k)) * dt s\<rparr>;
         p = p\<lparr>rotation_y := rotation_y p
                + 57.2958 * (pitch_angle k * sin (roll_angle k) + yaw_angle k * cos (roll_angle k)) * dt s\<rparr>;
         p = p\<lparr>rotation_z := 57.2958 * roll_angle k\<rparr>;
         p = p\<lparr>position := vec_add (position p)
                (vec_scale (vec_scale (vec_scale (forward eng p) (fv k)) (dt s)) movment_scale)\<rparr>;
         p = p\<lparr>position := vec_add (position p)
                (vec_scale (vec_scale (vec_scale (up eng p) (vv k)) (dt s)) movment_scale)\<rparr>;
         p = p\<lparr>position := vec_add (position p)
                (vec_scale (vec_scale (vec_scale (vec_scale (right eng p) (hv k)) (dt s)) movment_scale) 50)\<rparr>
     in Inr (s\<lparr>plane := p\<rparr>))"

definition check_ground_collision :: "flight_simulator \<Rightarrow> flight_simulator" where
  "check_ground_collision s =
     (let aircraft_lowest_point = y_of (plane s) - 1
      in if aircraft_lowest_point \<le> ground_y s then s\<lparr>crashed := True, run := False\<rparr> else s)"

definition py_div :: "real \<Rightarrow> real \<Rightarrow> exn + real" where
  "py_div a b = (if b = 0 then Inl ZeroDivisionError else Inr (a / b))"

text \<open>
  \<^verbatim>\<open>render_overlay\<close> changes only the bars and the text on screen; the model keeps the
  value \<^verbatim>\<open>normalized_vv\<close>, whose computation reads the state vector and divides.
\<close>

definition render_overlay :: "flight_simulator \<Rightarrow> exn + real" where
  "render_overlay s =
     bind (entry (state_long s) 1 0) (\<lambda>w.
     if w < 0
     then bind (entry (state_long s) 1 0) (\<lambda>w.
          bind (py_div 1 (- 0.001 * w + 2)) (\<lambda>q. Inr (q - 0.5)))
     else bind (entry (state_long s) 1 0) (\<lambda>w.
          bind (py_div (- 1) (0.001 * w + 2)) (\<lambda>q. Inr (q + 0.5))))"

definition update_data :: "flight_simulator \<Rightarrow> exn + flight_simulator" where
  "update_data s =
     (let s = s\<lparr>time_data := time_data s @ [flight_time s]\<rparr> in
      bind (entry (state_long s) 1 0) (\<lambda>aoa.
      let s = s\<lparr>aoa_data := aoa_data s @ [aoa]\<rparr> in
      bind (elem (A s) 1 2) (\<lambda>cruise.
      bind (entry (state_long s) 0 0) (\<lambda>u.
      let s = s\<lparr>velocity_data := velocity_data s @ [u + cruise]\<rparr> in
      bind (if length (velocity_data s) > 1
            then bind (py_div (last (velocity_data s) - last (butlast (velocity_data s))) (dt s))
                      (\<lambda>dv_dt. Inr (dv_dt / 9.81))
            else Inr 0) (\<lambda>g_force.
      let s = s\<lparr>gforce_data := gforce_data s @ [g_force]\<rparr>;
          s = s\<lparr>altitude_data := altitude_data s @ [y_of (plane s) - ground_y s]\<rparr>
      in Inr s)))))"

text \<open>
  \<^verbatim>\<open>end_simulation\<close> stores the collected series for the post-flight screen; the rest of it
  destroys entities of the engine and opens that screen.
\<close>

definition end_simulation :: "flight_simulator \<Rightarrow> flight_simulator" where
  "end_simulation s =
     s\<lparr>flight_data :=
         Some (time_data s, aoa_data s, velocity_data s, gforce_data s, altitude_data s)\<rparr>"

text \<open>
  The pause menu. The engine passes every key press to \<^verbatim>\<open>handle_input\<close> for as long as
  the input handler exists; only \<^verbatim>\<open>end_simulation\<close> destroys it. \<^verbatim>\<open>toggle_menu\<close> assigns
  \<^verbatim>\<open>menu_active\<close> first and then \<^verbatim>\<open>run\<close> from its new value; \<^verbatim>\<open>resume_game\<close> and
  \<^verbatim>\<open>exit_game\<close> are the actions of the two buttons of the menu.
\<close>

definition toggle_menu :: "flight_simulator \<Rightarrow> flight_simulator" where
  "toggle_menu s =
     (let s = s\<lparr>menu_active := \<not> menu_active s\<rparr>;
          s = s\<lparr>run := \<not> menu_active s\<rparr>
      in s)"

definition handle_input :: "string \<Rightarrow> flight_simulator \<Rightarrow> flight_simulator" where
  "handle_input key s = (if key = ''escape'' then toggle_menu s else s)"

definition resume_game :: "flight_simulator \<Rightarrow> flight_simulator" where
  "resume_game s = s\<lparr>menu_active := False, run := True\<rparr>"

definition exit_game :: "flight_simulator \<Rightarrow> flight_simulator" where
  "exit_game s = end_simulation (s\<lparr>run := False\<rparr>)"

text \<open>\<^verbatim>\<open>update\<close>, the per-tick step that the engine calls once per frame.\<close>

definition update :: "engine \<Rightarrow> (string \<Rightarrow> bool) \<Rightarrow> flight_simulator \<Rightarrow> exn + flight_simulator" where
  "update eng held_keys s =
     (if \<not> run s \<and> (\<not> menu_active s \<and> \<not> crashed s) then Inr s
      else if run s then
        (let s = s\<lparr>flight_time := flight_time s + dt s\<rparr>;
             s = update_control_inputs held_keys s in
         bind (update_state_vectors s) (\<lambda>s.
         bind (update_plane eng s) (\<lambda>s.
         let s = check_ground_collision s in
         bind (render_overlay s) (\<lambda>normalized_vv.
         bind (update_data s) (\<lambda>s.
         if flight_time s > 120 then Inr (end_simulation (s\<lparr>run := False\<rparr>)) else Inr s)))))
      else Inr s)"

text \<open>A run of ticks, one set of held keys per tick; it stops at the first exception.\<close>

fun updates :: "engine \<Rightarrow> (string \<Rightarrow> bool) list \<Rightarrow> flight_simulator \<Rightarrow> exn + flight_simulator" where
  "updates eng [] s = Inr s"
| "updates eng (held_keys # rest) s = bind (update eng held_keys s) (updates eng rest)"

section \<open>Shapes\<close>

text \<open>
  The vocabulary of the properties below. \<open>has_shape m h w\<close>: the matrix has \<open>h\<close> rows, each
  of length \<open>w\<close>, which is also its width. \<open>cell\<close> reads an entry that exists;
  \<open>tabulate h w f\<close> is the \<open>h\<close> by \<open>w\<close> matrix with entries \<open>f i j\<close>; \<open>euler a bu x k\<close> is the
  vector \<open>x + (a x + bu) k\<close> of one integration step. \<open>shapes_ok\<close> is the fixed layout of the
  simulator: \<open>A\<close> and \<open>C\<close> are 4 by 4, \<open>B\<close> is 4 by 1, \<open>D\<close> is 4 by 2, and both state
  vectors are 4 by 1 matrices.
\<close>

definition has_shape :: "matrix \<Rightarrow> nat \<Rightarrow> nat \<Rightarrow> bool" where
  "has_shape m h w \<longleftrightarrow>
     getheight m = h \<and> getwidth m = w \<and> list_all (\<lambda>row. length row = w) (getmatrix m)"

definition tabulate :: "nat \<Rightarrow> nat \<Rightarrow> (nat \<Rightarrow> nat \<Rightarrow> real) \<Rightarrow> matrix" where
  "tabulate h w f = Matrix (map (\<lambda>i. map (\<lambda>j. f i j) [0..<w]) [0..<h])"

definition cell :: "matrix \<Rightarrow> nat \<Rightarrow> nat \<Rightarrow> real" where
  "cell m i j = getmatrix m ! i ! j"

definition euler :: "matrix \<Rightarrow> matrix \<Rightarrow> matrix \<Rightarrow> real \<Rightarrow> matrix" where
  "euler a bu x k =
     tabulate 4 1 (\<lambda>i j. cell x i j
        + (foldl (\<lambda>acc n. acc + cell a i n * cell x n j) 0 [0..<4] + cell bu i j) * k)"

definition is_vec4 :: "pyval \<Rightarrow> bool" where
  "is_vec4 x = (case x of Mat m \<Rightarrow> has_shape m 4 1 | _ \<Rightarrow> False)"

definition shapes_ok :: "flight_simulator \<Rightarrow> bool" where
  "shapes_ok s \<longleftrightarrow>
     has_shape (A s) 4 4 \<and> has_shape (B s) 4 1 \<and> has_shape (C s) 4 4 \<and> has_shape (D s) 4 2
     \<and> is_vec4 (state_long s) \<and> is_vec4 (state_lat s)"

definition control_vector :: "flight_simulator \<Rightarrow> matrix" where
  "control_vector s = Matrix [[aileron s], [rudder s]]"

text \<open>
  \<open>zero4\<close> is the state vector that \<^verbatim>\<open>__init__\<close> assigns. \<open>halted\<close>: a terminal
  condition has been reached, a ground collision or the cap on the flight time.
  \<open>sample_rows\<close> is a matrix file of the fixed layout and \<open>level_engine\<close> an engine whose
  entities keep the axes of the world; the properties below are instantiated at them.
\<close>

definition zero4 :: matrix where
  "zero4 = Matrix [[0], [0], [0], [0]]"

definition halted :: "flight_simulator \<Rightarrow> bool" where
  "halted s \<longleftrightarrow> crashed s \<or> 120 < flight_time s"

definition sample_rows :: "real list list" where
  "sample_rows =
     [[- 0.03, 0.1, 0, - 9.81], [- 0.4, - 2, 50, 0], [0, 0, 0, 1], [0, - 0.5, 0, - 1],
      [0], [- 0.2], [0], [- 3],
      [- 0.1, 0, - 1, 0.2], [- 4, - 1, 0, 0], [0, 0, 0, 0], [0, 1, 0, 0],
      [0, 0.01], [2, 0.1], [0, - 0.5], [0, 0]]"

definition level_engine :: engine where
  "level_engine = \<lparr> forward = (\<lambda>e. (0, 0, 1)), up = (\<lambda>e. (0, 1, 0)), right = (\<lambda>e. (1, 0, 0)) \<rparr>"

text \<open>
  \<open>low_flight\<close> is the simulator as constructed, with the aircraft one unit above the
  ground: its lowest point is at the ground.
\<close>

definition low_flight :: flight_simulator where
  "low_flight = (init sample_rows)\<lparr>plane := (plane (init sample_rows))\<lparr>position := (0, - 99, 20)\<rparr>\<rparr>"

section \<open>Password hashing\<close>

text \<open>
  \<^verbatim>\<open>hash_password(password, salt)\<close> of \<^verbatim>\<open>D9.py\<close>. A Python string is a sequence of
  code points, and the loop only reads \<^verbatim>\<open>ord(char)\<close>, so a password is the list of its
  code points. Python integers are unbounded: \<^typ>\<open>int\<close>, with \<open>XOR\<close> and the left shift
  (\<^const>\<open>push_bit\<close>) on the infinite two's complement representation, as in Python.
  Python's \<^verbatim>\<open>%\<close> with a positive modulus is the floored remainder, which is \<open>mod\<close> on
  \<^typ>\<open>int\<close>.
\<close>

definition hash_round :: "int \<Rightarrow> int \<Rightarrow> nat \<Rightarrow> int" where
  "hash_round salt hash_val char =
     (let hash_val = hash_val * 97;
          hash_val = hash_val XOR (int char + 144479);
          hash_val = push_bit ((char mod 5) + 1) hash_val;
          hash_val = hash_val XOR salt;
          hash_val = hash_val + salt
      in hash_val)"

definition hash_password :: "nat list \<Rightarrow> int \<Rightarrow> int" where
  "hash_password password salt =
     foldl (hash_round salt) 867243217 password mod 387942806485727"

section \<open>The operations on matrices of known shape\<close>

lemma mapM_map:
  "(\<And>x. x \<in> set xs \<Longrightarrow> f x = Inr (g x)) \<Longrightarrow> mapM f xs = Inr (map g xs)"
  by (induction xs) simp_all

lemma foldM_foldl:
  "(\<And>acc x. x \<in> set xs \<Longrightarrow> f acc x = Inr (g acc x)) \<Longrightarrow> foldM f a xs = Inr (foldl g a xs)"
  by (induction xs arbitrary: a) simp_all

lemma elem_cell:
  "has_shape m h w \<Longrightarrow> i < h \<Longrightarrow> j < w \<Longrightarrow> elem m i j = Inr (cell m i j)"
  by (auto simp: has_shape_def elem_def item_def cell_def getheight_def list_all_length)

lemma has_shape_tabulate: "0 < h \<Longrightarrow> has_shape (tabulate h w f) h w"
  by (auto simp: has_shape_def tabulate_def getheight_def getwidth_def list_all_iff upt_conv_Cons)

lemma add_tabulate:
  assumes "has_shape a h w" and "has_shape b h w"
  shows "add a b = Inr (Mat (tabulate h w (\<lambda>i j. cell a i j + cell b i j)))"
proof -
  have hw: "getheight a = h" "getwidth a = w" "getheight b = h" "getwidth b = w"
    using assms by (simp_all add: has_shape_def)
  have row: "\<And>i. i \<in> set [0..<h] \<Longrightarrow>
      mapM (\<lambda>j. bind (elem a i j) (\<lambda>x. bind (elem b i j) (\<lambda>y. Inr (x + y)))) [0..<w]
      = Inr (map (\<lambda>j. cell a i j + cell b i j) [0..<w])"
    by (rule mapM_map) (simp add: elem_cell [OF assms(1)] elem_cell [OF assms(2)])
  have rows: "mapM (\<lambda>i. mapM (\<lambda>j. bind (elem a i j) (\<lambda>x. bind (elem b i j) (\<lambda>y. Inr (x + y))))
                             [0..<w]) [0..<h]
      = Inr (map (\<lambda>i. map (\<lambda>j. cell a i j + cell b i j) [0..<w]) [0..<h])"
    by (rule mapM_map) (rule row)
  show ?thesis
    unfolding add_def tabulate_def by (simp add: hw rows)
qed

lemma mul_scalar_tabulate:
  assumes "has_shape a h w"
  shows "mul a (Num k) = Inr (Mat (tabulate h w (\<lambda>i j. cell a i j * k)))"
proof -
  have hw: "getheight a = h" "getwidth a = w"
    using assms by (simp_all add: has_shape_def)
  have row: "\<And>i. i \<in> set [0..<h] \<Longrightarrow>
      mapM (\<lambda>j. bind (elem a i j) (\<lambda>x. Inr (x * k))) [0..<w]
      = Inr (map (\<lambda>j. cell a i j * k) [0..<w])"
    by (rule mapM_map) (simp add: elem_cell [OF assms(1)])
  have rows: "mapM (\<lambda>i. mapM (\<lambda>j. bind (elem a i j) (\<lambda>x. Inr (x * k))) [0..<w]) [0..<h]
      = Inr (map (\<lambda>i. map (\<lambda>j. cell a i j * k) [0..<w]) [0..<h])"
    by (rule mapM_map) (rule row)
  show ?thesis
    unfolding mul_def mul_scalar_def tabulate_def by (simp add: hw rows)
qed

lemma mul_matrix_tabulate:
  assumes "has_shape a h w" and "has_shape b w p"
  shows "mul a (Mat b)
         = Inr (Mat (tabulate h p (\<lambda>i j. foldl (\<lambda>acc k. acc + cell a i k * cell b k j) 0 [0..<w])))"
proof -
  have hw: "getheight a = h" "getwidth a = w" "getheight b = w" "getwidth b = p"
    using assms by (simp_all add: has_shape_def)
  have fold_cell: "\<And>i j. i \<in> set [0..<h] \<Longrightarrow> j \<in> set [0..<p] \<Longrightarrow>
      foldM (\<lambda>sum_val k. bind (elem a i k) (\<lambda>x. bind (elem b k j) (\<lambda>y. Inr (sum_val + x * y))))
            0 [0..<w]
      = Inr (foldl (\<lambda>acc k. acc + cell a i k * cell b k j) 0 [0..<w])"
    by (rule foldM_foldl) (simp add: elem_cell [OF assms(1)] elem_cell [OF assms(2)])
  have row: "\<And>i. i \<in> set [0..<h] \<Longrightarrow>
      mapM (\<lambda>j. foldM (\<lambda>sum_val k. bind (elem a i k) (\<lambda>x. bind (elem b k j)
                      (\<lambda>y. Inr (sum_val + x * y)))) 0 [0..<w]) [0..<p]
      = Inr (map (\<lambda>j. foldl (\<lambda>acc k. acc + cell a i k * cell b k j) 0 [0..<w]) [0..<p])"
    by (rule mapM_map) (simp add: fold_cell)
  have rows: "mapM (\<lambda>i. mapM (\<lambda>j. foldM (\<lambda>sum_val k. bind (elem a i k) (\<lambda>x. bind (elem b k j)
                      (\<lambda>y. Inr (sum_val + x * y)))) 0 [0..<w]) [0..<p]) [0..<h]
      = Inr (map (\<lambda>i. map (\<lambda>j. foldl (\<lambda>acc k. acc + cell a i k * cell b k j) 0 [0..<w]) [0..<p])
                 [0..<h])"
    by (rule mapM_map) (rule row)
  show ?thesis
    unfolding mul_def mul_matrix_def tabulate_def by (simp add: hw rows)
qed

lemma cell_tabulate: "i < h \<Longrightarrow> j < w \<Longrightarrow> cell (tabulate h w f) i j = f i j"
  by (simp add: cell_def tabulate_def)

lemma tabulate_cong:
  "(\<And>i j. i < h \<Longrightarrow> j < w \<Longrightarrow> f i j = g i j) \<Longrightarrow> tabulate h w f = tabulate h w g"
  by (simp add: tabulate_def)

lemma euler_step:
  assumes a: "has_shape a 4 4" and x: "has_shape x 4 1"
    and u: "mul b u = Inr (Mat bu)" and bu: "has_shape bu 4 1"
  shows "bind (mul a (Mat x)) (\<lambda>ax.
         bind (mul b u) (\<lambda>bu.
         bind (py_add ax bu) (\<lambda>xdot.
         bind (py_mul xdot (Num k)) (\<lambda>delta.
         bind (py_add (Mat x) delta) cont))))
         = cont (Mat (euler a bu x k))"
proof -
  define ax where "ax = tabulate 4 1 (\<lambda>i j. foldl (\<lambda>acc n. acc + cell a i n * cell x n j) 0 [0..<4])"
  define xdot where "xdot = tabulate 4 1 (\<lambda>i j. cell ax i j + cell bu i j)"
  define delta where "delta = tabulate 4 1 (\<lambda>i j. cell xdot i j * k)"
  have s1: "mul a (Mat x) = Inr (Mat ax)"
    by (simp add: mul_matrix_tabulate [OF a x] ax_def)
  have ax: "has_shape ax 4 1" by (simp add: ax_def has_shape_tabulate)
  have s3: "add ax bu = Inr (Mat xdot)"
    by (simp add: add_tabulate [OF ax bu] xdot_def)
  have xdot: "has_shape xdot 4 1" by (simp add: xdot_def has_shape_tabulate)
  have s4: "mul xdot (Num k) = Inr (Mat delta)"
    by (simp add: mul_scalar_tabulate [OF xdot] delta_def)
  have delta: "has_shape delta 4 1" by (simp add: delta_def has_shape_tabulate)
  have s5: "add x delta = Inr (Mat (tabulate 4 1 (\<lambda>i j. cell x i j + cell delta i j)))"
    by (simp add: add_tabulate [OF x delta])
  have eq: "tabulate 4 1 (\<lambda>i j. cell x i j + cell delta i j) = euler a bu x k"
    unfolding euler_def
    by (rule tabulate_cong) (simp add: delta_def xdot_def ax_def cell_tabulate)
  show ?thesis
    using eq by (simp add: s1 u s3 s4 s5)
qed

lemma has_shape_euler: "has_shape (euler a bu x k) 4 1"
  by (simp add: euler_def has_shape_tabulate)

lemma has_shape_control_vector: "has_shape (control_vector s) 2 1"
  by (simp add: control_vector_def has_shape_def getheight_def getwidth_def)

lemma update_state_vectors_euler:
  assumes sh: "has_shape (A s) 4 4" "has_shape (B s) 4 1" "has_shape (C s) 4 4"
      "has_shape (D s) 4 2"
    and x: "state_long s = Mat x" "has_shape x 4 1"
    and y: "state_lat s = Mat y" "has_shape y 4 1"
  shows "update_state_vectors s
         = Inr (s\<lparr>state_long :=
                    Mat (euler (A s) (tabulate 4 1 (\<lambda>i j. cell (B s) i j * elevator s)) x (dt s)),
                  state_lat :=
                    Mat (euler (C s)
                          (tabulate 4 1 (\<lambda>i j. foldl (\<lambda>acc n. acc
                              + cell (D s) i n * cell (control_vector s) n j) 0 [0..<2]))
                          y (dt s))\<rparr>)"
proof -
  define bu where "bu = tabulate 4 1 (\<lambda>i j. cell (B s) i j * elevator s)"
  define du where "du = tabulate 4 1
     (\<lambda>i j. foldl (\<lambda>acc n. acc + cell (D s) i n * cell (control_vector s) n j) 0 [0..<2])"
  have bu: "mul (B s) (Num (elevator s)) = Inr (Mat bu)" "has_shape bu 4 1"
    by (simp_all add: mul_scalar_tabulate [OF sh(2)] bu_def has_shape_tabulate)
  have du: "mul (D s) (Mat (Matrix [[aileron s], [rudder s]])) = Inr (Mat du)"
      "has_shape du 4 1"
    using mul_matrix_tabulate [OF sh(4) has_shape_control_vector [of s]]
    by (simp_all add: du_def has_shape_tabulate control_vector_def)
  show ?thesis
    unfolding update_state_vectors_def bu_def [symmetric] du_def [symmetric]
    by (simp add: x(1) y(1) euler_step [OF sh(1) x(2) bu] euler_step [OF sh(3) y(2) du])
qed

lemma shapes_okD:
  assumes "shapes_ok s"
  obtains x y where "state_long s = Mat x" "has_shape x 4 1" "state_lat s = Mat y" "has_shape y 4 1"
    "has_shape (A s) 4 4" "has_shape (B s) 4 1" "has_shape (C s) 4 4" "has_shape (D s) 4 2"
  using assms by (auto simp: shapes_ok_def is_vec4_def split: pyval.splits)

lemma update_state_vectors_shapes_ok:
  assumes "shapes_ok s"
  shows "\<exists>nl nt. update_state_vectors s = Inr (s\<lparr>state_long := Mat nl, state_lat := Mat nt\<rparr>)
           \<and> has_shape nl 4 1 \<and> has_shape nt 4 1"
proof -
  from assms obtain x y where
    x: "state_long s = Mat x" "has_shape x 4 1" and y: "state_lat s = Mat y" "has_shape y 4 1"
    and sh: "has_shape (A s) 4 4" "has_shape (B s) 4 1" "has_shape (C s) 4 4" "has_shape (D s) 4 2"
    by (rule shapes_okD)
  show ?thesis
    using update_state_vectors_euler [OF sh x y] has_shape_euler by blast
qed

section \<open>One tick on a simulator of the fixed layout\<close>

lemma entry_vec4: "has_shape m 4 1 \<Longrightarrow> i < 4 \<Longrightarrow> entry (Mat m) i 0 = Inr (cell m i 0)"
  by (simp add: entry_def elem_cell)

lemma plane_kinematics_ok:
  assumes "state_long s = Mat x" "has_shape x 4 1" "state_lat s = Mat y" "has_shape y 4 1"
    "has_shape (A s) 4 4"
  shows "plane_kinematics s =
     Inr \<lparr> sidelip_angle = cell y 0 0 / 57.2958,
           pitch_angle = - cell x 2 0 / 57.2958,
           yaw_angle = cell y 2 0 / 57.2958,
           roll_angle = cell y 3 0 / 57.2958,
           cruise_speed = cell (A s) 1 2,
           v = cell x 0 0 + cell (A s) 1 2,
           fv = (cell x 0 0 + cell (A s) 1 2) * cos (cell y 0 0 / 57.2958),
           vv = cell x 1 0,
           hv = (cell x 0 0 + cell (A s) 1 2) * sin (cell y 0 0 / 57.2958) \<rparr>"
  unfolding plane_kinematics_def
  by (simp add: assms(1,3) entry_vec4 [OF assms(2)] entry_vec4 [OF assms(4)] elem_cell [OF assms(5)])

lemma update_plane_ok:
  assumes "shapes_ok s"
  shows "\<exists>p. update_plane eng s = Inr (s\<lparr>plane := p\<rparr>)"
proof -
  from assms obtain x y where xy:
    "state_long s = Mat x" "has_shape x 4 1" "state_lat s = Mat y" "has_shape y 4 1"
    "has_shape (A s) 4 4"
    by (rule shapes_okD)
  show ?thesis
    unfolding update_plane_def plane_kinematics_ok [OF xy]
    by (simp only: bind.simps Let_def) (rule exI, rule refl)
qed

lemma render_overlay_ok:
  assumes "state_long s = Mat x" "has_shape x 4 1"
  shows "\<exists>q. render_overlay s = Inr q"
proof (cases "cell x 1 0 < 0")
  case True
  then have "- 0.001 * cell x 1 0 + 2 \<noteq> 0" by simp
  with True show ?thesis
    by (simp add: render_overlay_def assms(1) entry_vec4 [OF assms(2)] py_div_def)
next
  case False
  then have "0.001 * cell x 1 0 + 2 \<noteq> 0" by simp
  with False show ?thesis
    by (simp add: render_overlay_def assms(1) entry_vec4 [OF assms(2)] py_div_def)
qed

lemma update_data_ok:
  assumes "state_long s = Mat x" "has_shape x 4 1" "has_shape (A s) 4 4" "dt s \<noteq> 0"
  shows "\<exists>g. update_data s =
     Inr (s\<lparr>time_data := time_data s @ [flight_time s],
             aoa_data := aoa_data s @ [cell x 1 0],
             velocity_data := velocity_data s @ [cell x 0 0 + cell (A s) 1 2],
             gforce_data := gforce_data s @ [g],
             altitude_data := altitude_data s @ [y_of (plane s) - ground_y s]\<rparr>)"
  unfolding update_data_def
  by (simp add: assms(1,4) entry_vec4 [OF assms(2)] elem_cell [OF assms(3)] py_div_def Let_def)
     blast


lemma check_ground_collision_fields:
  "A (check_ground_collision s) = A s"
  "B (check_ground_collision s) = B s"
  "C (check_ground_collision s) = C s"
  "D (check_ground_collision s) = D s"
  "state_long (check_ground_collision s) = state_long s"
  "state_lat (check_ground_collision s) = state_lat s"
  "dt (check_ground_collision s) = dt s"
  "flight_time (check_ground_collision s) = flight_time s"
  "velocity_data (check_ground_collision s) = velocity_data s"
  "plane (check_ground_collision s) = plane s"
  "ground_y (check_ground_collision s) = ground_y s"
  by (simp_all add: check_ground_collision_def Let_def)

lemma update_control_inputs_fields:
  "A (update_control_inputs k s) = A s"
  "B (update_control_inputs k s) = B s"
  "C (update_control_inputs k s) = C s"
  "D (update_control_inputs k s) = D s"
  "state_long (update_control_inputs k s) = state_long s"
  "state_lat (update_control_inputs k s) = state_lat s"
  "dt (update_control_inputs k s) = dt s"
  "flight_time (update_control_inputs k s) = flight_time s"
  "velocity_data (update_control_inputs k s) = velocity_data s"
  "plane (update_control_inputs k s) = plane s"
  "ground_y (update_control_inputs k s) = ground_y s"
  "run (update_control_inputs k s) = run s"
  by (simp_all add: update_control_inputs_def Let_def)

lemma update_running:
  assumes ok: "shapes_ok s" and run: "run s" and dt: "dt s \<noteq> 0"
  shows "\<exists>nl nt s'.
       update_state_vectors (update_control_inputs held (s\<lparr>flight_time := flight_time s + dt s\<rparr>))
         = Inr ((update_control_inputs held (s\<lparr>flight_time := flight_time s + dt s\<rparr>))
                  \<lparr>state_long := Mat nl, state_lat := Mat nt\<rparr>)
     \<and> has_shape nl 4 1 \<and> has_shape nt 4 1
     \<and> update eng held s = Inr s'
     \<and> state_long s' = Mat nl \<and> state_lat s' = Mat nt
     \<and> A s' = A s \<and> B s' = B s \<and> C s' = C s \<and> D s' = D s \<and> dt s' = dt s
     \<and> velocity_data s' = velocity_data s @ [cell nl 0 0 + cell (A s) 1 2]"
proof -
  define s0 where "s0 = update_control_inputs held (s\<lparr>flight_time := flight_time s + dt s\<rparr>)"
  have ok0: "shapes_ok s0"
    using ok by (simp add: s0_def shapes_ok_def update_control_inputs_fields)
  from update_state_vectors_shapes_ok [OF ok0] obtain nl nt where
    sv: "update_state_vectors s0 = Inr (s0\<lparr>state_long := Mat nl, state_lat := Mat nt\<rparr>)"
    and nl: "has_shape nl 4 1" and nt: "has_shape nt 4 1"
    by blast
  define s1 where "s1 = s0\<lparr>state_long := Mat nl, state_lat := Mat nt\<rparr>"
  have sv1: "update_state_vectors s0 = Inr s1" by (simp add: sv s1_def)
  have f1: "A s1 = A s" "B s1 = B s" "C s1 = C s" "D s1 = D s" "dt s1 = dt s"
    "velocity_data s1 = velocity_data s" "state_long s1 = Mat nl" "state_lat s1 = Mat nt"
    by (simp_all add: s1_def s0_def update_control_inputs_fields)
  have ok1: "shapes_ok s1"
    using ok nl nt by (simp add: shapes_ok_def f1 is_vec4_def)
  from update_plane_ok [OF ok1] obtain p where
    up: "update_plane eng s1 = Inr (s1\<lparr>plane := p\<rparr>)" by blast
  define s3 where "s3 = check_ground_collision (s1\<lparr>plane := p\<rparr>)"
  have f3: "A s3 = A s" "B s3 = B s" "C s3 = C s" "D s3 = D s" "dt s3 = dt s"
    "velocity_data s3 = velocity_data s" "state_long s3 = Mat nl" "state_lat s3 = Mat nt"
    by (simp_all add: s3_def check_ground_collision_fields f1)
  have A3: "has_shape (A s3) 4 4" using ok by (simp add: f3 shapes_ok_def)
  have dt3: "dt s3 \<noteq> 0" using dt by (simp add: f3)
  from render_overlay_ok [OF f3(7) nl] obtain q where ro: "render_overlay s3 = Inr q" by blast
  from update_data_ok [OF f3(7) nl A3 dt3] obtain g where
    ud: "update_data s3 =
      Inr (s3\<lparr>time_data := time_data s3 @ [flight_time s3],
              aoa_data := aoa_data s3 @ [cell nl 1 0],
              velocity_data := velocity_data s3 @ [cell nl 0 0 + cell (A s3) 1 2],
              gforce_data := gforce_data s3 @ [g],
              altitude_data := altitude_data s3 @ [y_of (plane s3) - ground_y s3]\<rparr>)"
    by blast
  define s4 where "s4 = s3\<lparr>time_data := time_data s3 @ [flight_time s3],
              aoa_data := aoa_data s3 @ [cell nl 1 0],
              velocity_data := velocity_data s3 @ [cell nl 0 0 + cell (A s3) 1 2],
              gforce_data := gforce_data s3 @ [g],
              altitude_data := altitude_data s3 @ [y_of (plane s3) - ground_y s3]\<rparr>"
  have ud4: "update_data s3 = Inr s4" by (simp only: ud s4_def)
  define s5 where "s5 = (if flight_time s4 > 120 then end_simulation (s4\<lparr>run := False\<rparr>) else s4)"
  have f5: "A s5 = A s" "B s5 = B s" "C s5 = C s" "D s5 = D s" "dt s5 = dt s"
    "velocity_data s5 = velocity_data s @ [cell nl 0 0 + cell (A s) 1 2]"
    "state_long s5 = Mat nl" "state_lat s5 = Mat nt"
    by (simp_all add: s5_def s4_def end_simulation_def f3)
  have "update eng held s = Inr s5"
    unfolding update_def Let_def s0_def [symmetric]
    using run by (simp add: sv1 up s3_def [symmetric] ro ud4 s5_def)
  with sv nl nt f5 show ?thesis
    unfolding s0_def by blast
qed

lemma update_control_surface_flight_time:
  "update_control_surface held (s\<lparr>flight_time := t\<rparr>) control inc dec m
     = update_control_surface held s control inc dec m"
  by (simp add: update_control_surface_def)

lemma update_control_inputs_elevator:
  "elevator (update_control_inputs held s)
     = update_control_surface held s (elevator s) ''w'' ''s'' 5"
  by (simp add: update_control_inputs_def Let_def)

lemma update_control_inputs_controls:
  "elevator (update_control_inputs held (s\<lparr>flight_time := t\<rparr>))
     = update_control_surface held s (elevator s) ''w'' ''s'' 5"
  by (simp add: update_control_inputs_elevator update_control_surface_flight_time)

lemma check_ground_collision_controls:
  "elevator (check_ground_collision s) = elevator s"
  "menu_active (check_ground_collision s) = menu_active s"
  by (simp_all add: check_ground_collision_def Let_def)

lemma update_running_controls:
  assumes ok: "shapes_ok s" and run: "run s" and dt: "dt s \<noteq> 0"
  shows "\<exists>s'. update eng held s = Inr s'
     \<and> elevator s' = update_control_surface held s (elevator s) ''w'' ''s'' 5
     \<and> flight_time s' = flight_time s + dt s"
proof -
  define s0 where "s0 = update_control_inputs held (s\<lparr>flight_time := flight_time s + dt s\<rparr>)"
  have ok0: "shapes_ok s0"
    using ok by (simp add: s0_def shapes_ok_def update_control_inputs_fields)
  from update_state_vectors_shapes_ok [OF ok0] obtain nl nt where
    sv: "update_state_vectors s0 = Inr (s0\<lparr>state_long := Mat nl, state_lat := Mat nt\<rparr>)"
    and nl: "has_shape nl 4 1" and nt: "has_shape nt 4 1"
    by blast
  define s1 where "s1 = s0\<lparr>state_long := Mat nl, state_lat := Mat nt\<rparr>"
  have sv1: "update_state_vectors s0 = Inr s1" by (simp add: sv s1_def)
  have f1: "A s1 = A s" "B s1 = B s" "C s1 = C s" "D s1 = D s" "dt s1 = dt s"
    "state_long s1 = Mat nl" "state_lat s1 = Mat nt"
    "elevator s1 = update_control_surface held s (elevator s) ''w'' ''s'' 5"
    "flight_time s1 = flight_time s + dt s"
    by (simp_all add: s1_def s0_def update_control_inputs_fields update_control_inputs_controls)
  have ok1: "shapes_ok s1"
    using ok nl nt by (simp add: shapes_ok_def f1 is_vec4_def)
  from update_plane_ok [OF ok1] obtain p where
    up: "update_plane eng s1 = Inr (s1\<lparr>plane := p\<rparr>)" by blast
  define s3 where "s3 = check_ground_collision (s1\<lparr>plane := p\<rparr>)"
  have f3: "A s3 = A s" "dt s3 = dt s" "state_long s3 = Mat nl"
    "elevator s3 = update_control_surface held s (elevator s) ''w'' ''s'' 5"
    "flight_time s3 = flight_time s + dt s"
    by (simp_all add: s3_def check_ground_collision_fields check_ground_collision_controls f1)
  have A3: "has_shape (A s3) 4 4" using ok by (simp add: f3 shapes_ok_def)
  have dt3: "dt s3 \<noteq> 0" using dt by (simp add: f3)
  from render_overlay_ok [OF f3(3) nl] obtain q where ro: "render_overlay s3 = Inr q" by blast
  from update_data_ok [OF f3(3) nl A3 dt3] obtain g where
    ud: "update_data s3 =
      Inr (s3\<lparr>time_data := time_data s3 @ [flight_time s3],
              aoa_data := aoa_data s3 @ [cell nl 1 0],
              velocity_data := velocity_data s3 @ [cell nl 0 0 + cell (A s3) 1 2],
              gforce_data := gforce_data s3 @ [g],
              altitude_data := altitude_data s3 @ [y_of (plane s3) - ground_y s3]\<rparr>)"
    by blast
  define s4 where "s4 = s3\<lparr>time_data := time_data s3 @ [flight_time s3],
              aoa_data := aoa_data s3 @ [cell nl 1 0],
              velocity_data := velocity_data s3 @ [cell nl 0 0 + cell (A s3) 1 2],
              gforce_data := gforce_data s3 @ [g],
              altitude_data := altitude_data s3 @ [y_of (plane s3) - ground_y s3]\<rparr>"
  have ud4: "update_data s3 = Inr s4" by (simp only: ud s4_def)
  define s5 where "s5 = (if flight_time s4 > 120 then end_simulation (s4\<lparr>run := False\<rparr>) else s4)"
  have f5: "elevator s5 = update_control_surface held s (elevator s) ''w'' ''s'' 5"
    "flight_time s5 = flight_time s + dt s"
    by (simp_all add: s5_def s4_def end_simulation_def f3)
  have "update eng held s = Inr s5"
    unfolding update_def Let_def s0_def [symmetric]
    using run by (simp add: sv1 up s3_def [symmetric] ro ud4 s5_def)
  with f5 show ?thesis by blast
qed

section \<open>The resting state\<close>

lemma has_shape_zero4: "has_shape zero4 4 1"
  by (simp add: zero4_def has_shape_def getheight_def getwidth_def)

lemma cell_zero4: "i < 4 \<Longrightarrow> cell zero4 i 0 = 0"
proof -
  assume "i < 4"
  then have "i = 0 \<or> i = 1 \<or> i = 2 \<or> i = 3" by arith
  then show ?thesis by (auto simp: cell_def zero4_def)
qed

lemma tabulate_zero: "tabulate 4 1 (\<lambda>i j. 0) = zero4"
  by (simp add: tabulate_def zero4_def upt_rec)

lemma euler_zero:
  assumes "\<And>i. i < 4 \<Longrightarrow> cell bu i 0 = 0"
  shows "euler a bu zero4 k = zero4"
proof -
  have "euler a bu zero4 k = tabulate 4 1 (\<lambda>i j. 0)"
    unfolding euler_def
  proof (rule tabulate_cong)
    fix i j :: nat
    assume i: "i < 4" and j: "j < 1"
    then have j0: "j = 0" by simp
    have "foldl (\<lambda>acc n. acc + cell a i n * cell zero4 n 0) 0 [0..<4] = 0"
      by (simp add: upt_rec cell_zero4)
    then show "cell zero4 i j
        + (foldl (\<lambda>acc n. acc + cell a i n * cell zero4 n j) 0 [0..<4] + cell bu i j) * k = 0"
      using i by (simp add: j0 cell_zero4 assms)
  qed
  then show ?thesis using tabulate_zero by simp
qed

lemma update_control_surface_rest:
  "\<not> held inc \<Longrightarrow> \<not> held dec \<Longrightarrow> update_control_surface held s 0 inc dec m = 0"
  by (simp add: update_control_surface_def)

lemma update_control_inputs_rest:
  assumes "elevator s = 0" "aileron s = 0" "rudder s = 0" "\<forall>k. \<not> held k"
  shows "update_control_inputs held s = s"
  using assms by (simp add: update_control_inputs_def update_control_surface_rest)

lemma update_state_vectors_zero:
  assumes sh: "has_shape (A s) 4 4" "has_shape (B s) 4 1" "has_shape (C s) 4 4"
      "has_shape (D s) 4 2"
    and zero: "state_long s = Mat zero4" "state_lat s = Mat zero4"
    and controls: "elevator s = 0" "aileron s = 0" "rudder s = 0"
  shows "update_state_vectors s = Inr s"
proof -
  have bu: "\<And>i. i < 4 \<Longrightarrow> cell (tabulate 4 1 (\<lambda>i j. cell (B s) i j * elevator s)) i 0 = 0"
    by (simp add: cell_tabulate controls)
  have cv: "cell (control_vector s) 0 0 = 0" "cell (control_vector s) (Suc 0) 0 = 0"
    by (simp_all add: cell_def control_vector_def controls)
  have du: "\<And>i. i < 4 \<Longrightarrow> cell (tabulate 4 1 (\<lambda>i j. foldl (\<lambda>acc n. acc
                  + cell (D s) i n * cell (control_vector s) n j) 0 [0..<2])) i 0 = 0"
    by (simp add: cell_tabulate upt_rec cv)
  have "update_state_vectors s = Inr (s\<lparr>state_long := Mat zero4, state_lat := Mat zero4\<rparr>)"
    by (simp only: update_state_vectors_euler [OF sh zero(1) has_shape_zero4 zero(2) has_shape_zero4]
          euler_zero [OF bu] euler_zero [OF du])
  then show ?thesis using zero by simp
qed

lemma init_sample_facts:
  "has_shape (A (init sample_rows)) 4 4" "has_shape (B (init sample_rows)) 4 1"
  "has_shape (C (init sample_rows)) 4 4" "has_shape (D (init sample_rows)) 4 2"
  "state_long (init sample_rows) = Mat zero4" "state_lat (init sample_rows) = Mat zero4"
  "elevator (init sample_rows) = 0" "aileron (init sample_rows) = 0" "rudder (init sample_rows) = 0"
  "dt (init sample_rows) \<noteq> 0" "run (init sample_rows)"
  "elem (A (init sample_rows)) 1 2 = Inr 50"
  by (simp_all add: init_def sample_rows_def slice_def has_shape_def getheight_def getwidth_def
        zero4_def elem_def item_def)

section \<open>Runs of ticks\<close>

lemma update_not_running: "\<not> run s \<Longrightarrow> update eng held s = Inr s"
  by (simp add: update_def)

lemma updates_not_running: "\<not> run s \<Longrightarrow> updates eng ks s = Inr s"
  by (induction ks) (simp_all add: update_not_running)

lemma update_keeps_layout:
  assumes "shapes_ok s" and "dt s \<noteq> 0"
  shows "\<exists>s'. update eng held s = Inr s' \<and> shapes_ok s' \<and> dt s' = dt s"
proof (cases "run s")
  case False
  with assms show ?thesis by (simp add: update_not_running)
next
  case True
  from update_running [OF assms(1) True assms(2), of held eng] obtain nl nt s' where
    u: "update eng held s = Inr s'" "has_shape nl 4 1" "has_shape nt 4 1"
      "state_long s' = Mat nl" "state_lat s' = Mat nt"
      "A s' = A s" "B s' = B s" "C s' = C s" "D s' = D s" "dt s' = dt s"
    by blast
  have "shapes_ok s'"
    using assms(1) u(2,3) by (simp add: shapes_ok_def is_vec4_def u(4-9))
  with u(1,10) show ?thesis by simp
qed

lemma updates_keep_layout:
  "shapes_ok s \<Longrightarrow> dt s \<noteq> 0 \<Longrightarrow> \<exists>s'. updates eng ks s = Inr s' \<and> shapes_ok s' \<and> dt s' = dt s"
proof (induction ks arbitrary: s)
  case Nil
  then show ?case by simp
next
  case (Cons k ks)
  from update_keeps_layout [OF Cons.prems, of eng k] obtain s1 where
    s1: "update eng k s = Inr s1" "shapes_ok s1" "dt s1 = dt s" by blast
  from Cons.IH [of s1] s1 Cons.prems(2) obtain s' where
    "updates eng ks s1 = Inr s'" "shapes_ok s'" "dt s' = dt s1" by auto
  with s1 show ?case by simp
qed

lemma init_layout:
  assumes "has_shape (A (init rows)) 4 4" "has_shape (B (init rows)) 4 1"
    "has_shape (C (init rows)) 4 4" "has_shape (D (init rows)) 4 2"
  shows "shapes_ok (init rows)" and "dt (init rows) \<noteq> 0"
proof -
  have "state_long (init rows) = Mat zero4" "state_lat (init rows) = Mat zero4"
    by (simp_all add: init_def zero4_def)
  with assms has_shape_zero4 show "shapes_ok (init rows)"
    by (simp add: shapes_ok_def is_vec4_def)
  show "dt (init rows) \<noteq> 0" by (simp add: init_def)
qed

section \<open>Terminal conditions\<close>

text \<open>
  A tick of the running simulator that returns with the aircraft at or below the ground, or
  with the flight time above 120, returns a halted simulator that no longer runs.
\<close>

lemma bindE:
  assumes "bind m f = Inr y"
  obtains x where "m = Inr x" and "f x = Inr y"
  using assms by (cases m) auto

lemma update_data_keeps:
  assumes "update_data s = Inr s'"
  shows "run s' = run s" and "crashed s' = crashed s" and "plane s' = plane s"
    and "ground_y s' = ground_y s" and "flight_time s' = flight_time s"
  using assms unfolding update_data_def Let_def
  by (elim bindE; clarsimp)+

lemma check_ground_collision_halts:
  "y_of (plane s) - 1 \<le> ground_y s \<Longrightarrow>
     \<not> run (check_ground_collision s) \<and> crashed (check_ground_collision s)"
  by (simp add: check_ground_collision_def Let_def)

lemma terminal_condition_halts:
  assumes run: "run s" and u: "update eng held s = Inr s'"
    and tc: "y_of (plane s') - 1 \<le> ground_y s' \<or> 120 < flight_time s'"
  shows "halted s' \<and> \<not> run s'"
proof -
  from run u have "bind (update_state_vectors
           (update_control_inputs held (s\<lparr>flight_time := flight_time s + dt s\<rparr>)))
       (\<lambda>s. bind (update_plane eng s)
       (\<lambda>s. bind (render_overlay (check_ground_collision s))
       (\<lambda>normalized_vv. bind (update_data (check_ground_collision s))
       (\<lambda>s. if flight_time s > 120 then Inr (end_simulation (s\<lparr>run := False\<rparr>)) else Inr s))))
     = Inr s'"
    by (simp add: update_def Let_def)
  then obtain s1 where "bind (update_plane eng s1)
       (\<lambda>s. bind (render_overlay (check_ground_collision s))
       (\<lambda>normalized_vv. bind (update_data (check_ground_collision s))
       (\<lambda>s. if flight_time s > 120 then Inr (end_simulation (s\<lparr>run := False\<rparr>)) else Inr s)))
     = Inr s'"
    by (rule bindE)
  then obtain s2 where "bind (render_overlay (check_ground_collision s2))
       (\<lambda>normalized_vv. bind (update_data (check_ground_collision s2))
       (\<lambda>s. if flight_time s > 120 then Inr (end_simulation (s\<lparr>run := False\<rparr>)) else Inr s))
     = Inr s'"
    by (rule bindE)
  then obtain q where "bind (update_data (check_ground_collision s2))
       (\<lambda>s. if flight_time s > 120 then Inr (end_simulation (s\<lparr>run := False\<rparr>)) else Inr s)
     = Inr s'"
    by (rule bindE)
  then obtain s4 where
    s4: "update_data (check_ground_collision s2) = Inr s4"
    and s': "s' = (if flight_time s4 > 120 then end_simulation (s4\<lparr>run := False\<rparr>) else s4)"
    by (rule bindE) (auto split: if_splits)
  define s3 where "s3 = check_ground_collision s2"
  have k4: "run s4 = run s3" "crashed s4 = crashed s3" "plane s4 = plane s3"
    "ground_y s4 = ground_y s3" "flight_time s4 = flight_time s3"
    using update_data_keeps [OF s4] by (simp_all add: s3_def)
  have k3: "plane s3 = plane s2" "ground_y s3 = ground_y s2"
    by (simp_all add: s3_def check_ground_collision_fields)
  show ?thesis
  proof (cases "flight_time s4 > 120")
    case True
    with s' have "s' = end_simulation (s4\<lparr>run := False\<rparr>)" by simp
    with True show ?thesis by (simp add: halted_def end_simulation_def)
  next
    case False
    with s' have eq: "s' = s4" by simp
    with tc False have "y_of (plane s2) - 1 \<le> ground_y s2"
      by (simp add: k4 k3 y_of_def)
    then have "\<not> run s3 \<and> crashed s3"
      unfolding s3_def by (rule check_ground_collision_halts)
    then show ?thesis by (simp add: eq halted_def k4)
  qed
qed

section \<open>The pause menu after a crash\<close>

lemma escape_twice:
  "\<not> menu_active s \<Longrightarrow>
     handle_input ''escape'' (handle_input ''escape'' s) = s\<lparr>menu_active := False, run := True\<rparr>"
  by (simp add: handle_input_def toggle_menu_def Let_def)

lemma escape_then_resume:
  "resume_game (handle_input ''escape'' s) = s\<lparr>menu_active := False, run := True\<rparr>"
  by (simp add: resume_game_def handle_input_def toggle_menu_def Let_def)

lemma low_flight_facts:
  "shapes_ok low_flight" "dt low_flight \<noteq> 0" "\<not> menu_active low_flight"
  "y_of (plane low_flight) - 1 \<le> ground_y low_flight" "elevator low_flight < 5"
proof -
  have "shapes_ok (init sample_rows)" by (rule init_layout [OF init_sample_facts(1-4)])
  then show "shapes_ok low_flight" by (simp add: low_flight_def shapes_ok_def)
  show "dt low_flight \<noteq> 0" "\<not> menu_active low_flight"
    "y_of (plane low_flight) - 1 \<le> ground_y low_flight" "elevator low_flight < 5"
    by (simp_all add: low_flight_def init_def y_of_def)
qed

section \<open>Holding a key\<close>

lemma hold_w_elevator:
  "n \<le> 100 \<Longrightarrow>
     elevator ((update_control_inputs (\<lambda>k. k = ''w'') ^^ n) (init rows)) = real n * 0.05001
     \<and> dt ((update_control_inputs (\<lambda>k. k = ''w'') ^^ n) (init rows)) = 0.01667"
proof (induction n)
  case 0
  then show ?case by (simp add: init_def)
next
  case (Suc n)
  define t where "t = (update_control_inputs (\<lambda>k. k = ''w'') ^^ n) (init rows)"
  from Suc have e: "elevator t = real n * 0.05001" and d: "dt t = 0.01667" and n: "n < 100"
    by (simp_all add: t_def)
  from n have "real n \<le> 99" by simp
  then have "real n * 0.05001 \<le> 99 * 0.05001"
    by (intro mult_right_mono) simp_all
  then have lt: "elevator t < 5" unfolding e by simp
  have "update_control_surface (\<lambda>k. k = ''w'') t (elevator t) ''w'' ''s'' 5
          = elevator t + 3 * dt t"
    using lt by (simp add: update_control_surface_def)
  then have "elevator (update_control_inputs (\<lambda>k. k = ''w'') t) = real (Suc n) * 0.05001"
    by (simp add: update_control_inputs_def Let_def e d algebra_simps)
  moreover have "dt (update_control_inputs (\<lambda>k. k = ''w'') t) = 0.01667"
    by (simp add: update_control_inputs_fields d)
  ultimately show ?case by (simp add: t_def)
qed

lemma overshoot_one_step:
  "update_control_surface (\<lambda>k. k = ''w'') (init rows) 4.99 ''w'' ''s'' 5 = 5.04001"
  by (simp add: update_control_surface_def init_def)

section \<open>Properties of the Matrix class\<close>

lemma det_2x2:
  "det (Matrix [[a, b], [c, d]]) = Inr (Num (a * d - b * b))"
  by (simp add: det.simps sub_def getheight_def getwidth_def elem_def item_def upt_rec)

lemma det_1x1: "det (Matrix [[a]]) = Inr (Num a)"
  by (simp add: det.simps getheight_def getwidth_def elem_def item_def)

text \<open>
  C1. \<open>det\<close> is meant to return the determinant: the sole element of a 1 x 1 matrix, 1 for
  an identity matrix, 0 for a square matrix with an all-zero row. The code pairs the entry
  \<^verbatim>\<open>data[0][i]\<close> with the minor that \<^verbatim>\<open>sub(0, i)\<close> returns, which lacks row \<open>i\<close> and
  column 0 (not row 0 and column \<open>i\<close>); on a 2 x 2 matrix it computes \<open>a * d - b * b\<close>.
  The matrix with rows \<open>(1, 1)\<close> and \<open>(0, 0)\<close> has an all-zero row and determinant 0; the
  code returns \<open>- 1\<close>.
\<close>

theorem det_zero_row_nonzero:
  "det (Matrix [[1, 1], [0, 0]]) = Inr (Num (- 1))"
  by (simp add: det.simps sub_def getheight_def getwidth_def elem_def item_def upt_rec)

text \<open>
  C6. \<open>sub\<close> is meant to remove the row named by its first argument and the column named by
  its second. The code removes the column named by the first argument and the row named
  by the second: from the matrix with rows \<open>(1, 2)\<close> and \<open>(3, 4)\<close>, \<^verbatim>\<open>sub(0, 1)\<close> leaves
  the entry 2 (row 1 and column 0 removed), where removing row 0 and column 1 leaves 3.
\<close>

theorem sub_removes_column_then_row:
  "sub (Matrix [[1, 2], [3, 4]]) 0 1 = Inr (Matrix [[2]])"
  by (simp add: sub_def getheight_def getwidth_def elem_def item_def upt_rec)

text \<open>
  C2. A shape mismatch is reported and nothing is computed: \<open>add\<close> returns the string
  \<^verbatim>\<open>"Error"\<close> (the specification's ShapeError) whenever the heights or the widths of the
  operands differ, the product of two matrices does so whenever the width of the left one
  differs from the height of the right one, and \<open>det\<close> whenever the matrix is not square.
\<close>

theorem shape_mismatch_is_error:
  "(getheight a \<noteq> getheight b \<or> getwidth a \<noteq> getwidth b \<longrightarrow>
      add a b = Inr ErrorStr \<and> py_add (Mat a) (Mat b) = Inr ErrorStr)
   \<and> (getwidth c \<noteq> getheight d \<longrightarrow>
      mul c (Mat d) = Inr ErrorStr \<and> py_mul (Mat c) (Mat d) = Inr ErrorStr)
   \<and> (getheight e \<noteq> getwidth e \<longrightarrow> det e = Inr ErrorStr)"
proof (intro conjI impI)
  assume "getheight a \<noteq> getheight b \<or> getwidth a \<noteq> getwidth b"
  then show "add a b = Inr ErrorStr" by (simp add: add_def)
  then show "py_add (Mat a) (Mat b) = Inr ErrorStr" by simp
next
  assume "getwidth c \<noteq> getheight d"
  then show "mul c (Mat d) = Inr ErrorStr" by (simp add: mul_def mul_matrix_def)
  then show "py_mul (Mat c) (Mat d) = Inr ErrorStr" by simp
next
  assume "getheight e \<noteq> getwidth e"
  then show "det e = Inr ErrorStr" by (simp add: det.simps)
qed

theorem shape_mismatch_is_error_witness:
  "add (Matrix [[1, 2, 3], [4, 5, 6]]) (Matrix [[1, 2], [3, 4], [5, 6]]) = Inr ErrorStr
   \<and> py_add (Mat (Matrix [[1, 2, 3], [4, 5, 6]])) (Mat (Matrix [[1, 2], [3, 4], [5, 6]]))
       = Inr ErrorStr
   \<and> mul (Matrix [[1, 2, 3], [4, 5, 6]]) (Mat (Matrix [[1, 2], [3, 4]])) = Inr ErrorStr
   \<and> py_mul (Mat (Matrix [[1, 2, 3], [4, 5, 6]])) (Mat (Matrix [[1, 2], [3, 4]]))
       = Inr ErrorStr
   \<and> det (Matrix [[1, 2, 3], [4, 5, 6]]) = Inr ErrorStr"
  using shape_mismatch_is_error
          [of "Matrix [[1, 2, 3], [4, 5, 6]]" "Matrix [[1, 2], [3, 4], [5, 6]]"
              "Matrix [[1, 2, 3], [4, 5, 6]]" "Matrix [[1, 2], [3, 4]]"
              "Matrix [[1, 2, 3], [4, 5, 6]]"]
  by (simp add: getheight_def getwidth_def)

section \<open>Properties of the flight simulator\<close>

text \<open>
  C3. Zero-input steady state: on a simulator of the fixed layout, for every \<open>dt\<close>, with
  both state vectors at the 4 x 1 zero vector, elevator, aileron and rudder at 0 and no key
  held, the update of the controls followed by the update of the state vectors leaves both
  state vectors at the zero vector; so does the whole tick, which returns when \<open>dt\<close> is not
  0 (the tick divides by \<open>dt\<close> when it records the load factor).
\<close>

theorem zero_input_steady_state:
  assumes sh: "has_shape (A s) 4 4" "has_shape (B s) 4 1" "has_shape (C s) 4 4"
      "has_shape (D s) 4 2"
    and zero: "state_long s = Mat zero4" "state_lat s = Mat zero4"
    and controls: "elevator s = 0" "aileron s = 0" "rudder s = 0"
    and keys: "\<forall>k. \<not> held_keys k"
  shows "(\<exists>s'. update_state_vectors (update_control_inputs held_keys s) = Inr s'
            \<and> state_long s' = Mat zero4 \<and> state_lat s' = Mat zero4)
       \<and> (dt s \<noteq> 0 \<longrightarrow>
            (\<exists>s'. update eng held_keys s = Inr s'
               \<and> state_long s' = Mat zero4 \<and> state_lat s' = Mat zero4))"
proof (intro conjI impI)
  have "update_control_inputs held_keys s = s"
    using controls keys by (rule update_control_inputs_rest)
  moreover have "update_state_vectors s = Inr s"
    using sh zero controls by (rule update_state_vectors_zero)
  ultimately show "\<exists>s'. update_state_vectors (update_control_inputs held_keys s) = Inr s'
            \<and> state_long s' = Mat zero4 \<and> state_lat s' = Mat zero4"
    using zero by simp
next
  assume dt: "dt s \<noteq> 0"
  show "\<exists>s'. update eng held_keys s = Inr s' \<and> state_long s' = Mat zero4 \<and> state_lat s' = Mat zero4"
  proof (cases "run s")
    case False
    then have "update eng held_keys s = Inr s" by (simp add: update_def)
    with zero show ?thesis by simp
  next
    case True
    define t where "t = s\<lparr>flight_time := flight_time s + dt s\<rparr>"
    have ok: "shapes_ok s"
      using sh zero has_shape_zero4 by (simp add: shapes_ok_def is_vec4_def)
    have t0: "update_control_inputs held_keys t = t"
      using controls keys by (intro update_control_inputs_rest) (simp_all add: t_def)
    have t1: "update_state_vectors t = Inr t"
      using sh zero controls by (intro update_state_vectors_zero) (simp_all add: t_def)
    from update_running [OF ok True dt, of held_keys eng] obtain nl nt s' where
      r: "update_state_vectors (update_control_inputs held_keys t)
            = Inr ((update_control_inputs held_keys t)\<lparr>state_long := Mat nl, state_lat := Mat nt\<rparr>)"
      and u: "update eng held_keys s = Inr s'" "state_long s' = Mat nl" "state_lat s' = Mat nt"
      unfolding t_def by blast
    from r have "t\<lparr>state_long := Mat nl, state_lat := Mat nt\<rparr> = t"
      by (simp add: t0 t1)
    then have "state_long (t\<lparr>state_long := Mat nl, state_lat := Mat nt\<rparr>) = state_long t"
      "state_lat (t\<lparr>state_long := Mat nl, state_lat := Mat nt\<rparr>) = state_lat t"
      by simp_all
    then have "Mat nl = Mat zero4" "Mat nt = Mat zero4"
      using zero by (simp_all add: t_def)
    with u show ?thesis by simp
  qed
qed

theorem zero_input_steady_state_witness:
  "(\<exists>s'. update_state_vectors (update_control_inputs (\<lambda>k. False) (init sample_rows)) = Inr s'
        \<and> state_long s' = Mat zero4 \<and> state_lat s' = Mat zero4)
   \<and> (\<exists>s'. update level_engine (\<lambda>k. False) (init sample_rows) = Inr s'
        \<and> state_long s' = Mat zero4 \<and> state_lat s' = Mat zero4)"
  using zero_input_steady_state [OF init_sample_facts(1-9), of "\<lambda>k. False" level_engine]
    init_sample_facts(10)
  by simp

text \<open>
  C5. Once the simulator is constructed from a matrix file that gives \<open>A\<close> and \<open>C\<close> the
  shape 4 x 4, \<open>B\<close> the shape 4 x 1 and \<open>D\<close> the shape 4 x 2, no tick raises: every run of
  ticks, whatever keys are held, returns a state, whose state vectors are 4 x 1 matrices
  (never the string \<^verbatim>\<open>"Error"\<close>), and from which the update of the state vectors again
  returns 4 x 1 matrices. So every sum and product in that update has matching shapes.
\<close>

theorem step_never_raises:
  assumes "has_shape (A (init matrix_combo)) 4 4" "has_shape (B (init matrix_combo)) 4 1"
    "has_shape (C (init matrix_combo)) 4 4" "has_shape (D (init matrix_combo)) 4 2"
  shows "\<exists>s'. updates eng ticks (init matrix_combo) = Inr s'
           \<and> is_vec4 (state_long s') \<and> is_vec4 (state_lat s')
           \<and> (\<exists>s''. update_state_vectors s' = Inr s''
                  \<and> is_vec4 (state_long s'') \<and> is_vec4 (state_lat s''))"
proof -
  from updates_keep_layout [OF init_layout [OF assms], of eng ticks] obtain s' where
    s': "updates eng ticks (init matrix_combo) = Inr s'" "shapes_ok s'" by blast
  from update_state_vectors_shapes_ok [OF s'(2)] obtain nl nt where
    "update_state_vectors s' = Inr (s'\<lparr>state_long := Mat nl, state_lat := Mat nt\<rparr>)"
    "has_shape nl 4 1" "has_shape nt 4 1" by blast
  then have "\<exists>s''. update_state_vectors s' = Inr s''
                  \<and> is_vec4 (state_long s'') \<and> is_vec4 (state_lat s'')"
    by (simp add: is_vec4_def)
  with s' show ?thesis by (auto simp: shapes_ok_def)
qed

theorem step_never_raises_witness:
  "\<exists>s'. updates level_engine [\<lambda>k. k = ''w'', \<lambda>k. False] (init sample_rows) = Inr s'
           \<and> is_vec4 (state_long s') \<and> is_vec4 (state_lat s')
           \<and> (\<exists>s''. update_state_vectors s' = Inr s''
                  \<and> is_vec4 (state_long s'') \<and> is_vec4 (state_lat s''))"
  using step_never_raises [OF init_sample_facts(1-4), of level_engine "[\<lambda>k. k = ''w'', \<lambda>k. False]"]
  by simp

text \<open>
  C4. Once a terminal condition has been reached, a further tick is meant to change
  nothing. After a ground collision the code only sets \<^verbatim>\<open>run\<close> to false, and the handler of
  the escape key stays installed until \<^verbatim>\<open>end_simulation\<close>; \<^verbatim>\<open>toggle_menu\<close> and
  \<^verbatim>\<open>resume_game\<close> do not look at \<^verbatim>\<open>crashed\<close>. On every simulator of the fixed layout in
  which the collision check fires: the state it leaves is halted and not running; escape
  pressed twice, or escape and then the resume button, set \<^verbatim>\<open>run\<close> back to true; and
  the next tick, with the key \<^verbatim>\<open>w\<close> held, returns a state whose elevator has moved by
  \<open>3 dt\<close>.
\<close>

theorem crashed_simulation_resumes:
  assumes ok: "shapes_ok s" and dt: "dt s \<noteq> 0" and menu: "\<not> menu_active s"
    and ground: "y_of (plane s) - 1 \<le> ground_y s"
    and key: "held_keys ''w''" and below: "elevator s < 5"
  shows "halted (check_ground_collision s) \<and> \<not> run (check_ground_collision s)
       \<and> resume_game (handle_input ''escape'' (check_ground_collision s))
           = handle_input ''escape'' (handle_input ''escape'' (check_ground_collision s))
       \<and> (\<exists>s'. update eng held_keys
                   (handle_input ''escape'' (handle_input ''escape'' (check_ground_collision s)))
                 = Inr s'
               \<and> elevator s' = elevator (check_ground_collision s) + 3 * dt s
               \<and> elevator s' \<noteq> elevator (check_ground_collision s))"
proof -
  define c where "c = check_ground_collision s"
  define r where "r = c\<lparr>menu_active := False, run := True\<rparr>"
  have h: "crashed c" "\<not> run c"
    using check_ground_collision_halts [OF ground] by (simp_all add: c_def)
  have mc: "\<not> menu_active c" using menu by (simp add: c_def check_ground_collision_controls)
  have esc: "handle_input ''escape'' (handle_input ''escape'' c) = r"
    using mc by (simp add: escape_twice r_def)
  have res: "resume_game (handle_input ''escape'' c) = r"
    by (simp add: escape_then_resume r_def)
  have okr: "shapes_ok r"
    using ok by (simp add: r_def c_def shapes_ok_def check_ground_collision_fields)
  have fr: "run r" "dt r = dt s" "elevator r = elevator s"
    by (simp_all add: r_def c_def check_ground_collision_fields check_ground_collision_controls)
  have dtr: "dt r \<noteq> 0" using dt by (simp add: fr)
  from update_running_controls [OF okr fr(1) dtr, of eng held_keys] obtain s' where
    u: "update eng held_keys r = Inr s'"
    and e: "elevator s' = update_control_surface held_keys r (elevator r) ''w'' ''s'' 5"
    by blast
  have "update_control_surface held_keys r (elevator r) ''w'' ''s'' 5 = elevator s + 3 * dt s"
    using key below by (simp add: update_control_surface_def fr)
  with e have e': "elevator s' = elevator c + 3 * dt s"
    by (simp add: c_def check_ground_collision_controls)
  with dt have "elevator s' \<noteq> elevator c" by simp
  with h esc res u e' show ?thesis
    unfolding c_def [symmetric] by (simp add: halted_def)
qed

theorem crashed_simulation_resumes_witness:
  "halted (check_ground_collision low_flight) \<and> \<not> run (check_ground_collision low_flight)
   \<and> resume_game (handle_input ''escape'' (check_ground_collision low_flight))
       = handle_input ''escape'' (handle_input ''escape'' (check_ground_collision low_flight))
   \<and> (\<exists>s'. update level_engine (\<lambda>k. k = ''w'')
               (handle_input ''escape'' (handle_input ''escape'' (check_ground_collision low_flight)))
             = Inr s'
           \<and> elevator s' = elevator (check_ground_collision low_flight) + 3 * dt low_flight
           \<and> elevator s' \<noteq> elevator (check_ground_collision low_flight))"
  by (rule crashed_simulation_resumes [OF low_flight_facts(1-4) _ low_flight_facts(5)]) simp

text \<open>
  C7. Spring-back snap: with neither key of a control held, a control value that is not 0
  and that the spring-back rate \<open>5 dt\<close> carries to or across 0 within the tick is set to
  exactly 0 by the update of that control. The three controls are updated by this one
  function.
\<close>

theorem spring_back_snaps_to_zero:
  assumes "\<not> held_keys increase_key" and "\<not> held_keys decrease_key"
    and "control \<noteq> 0" and "\<bar>control\<bar> \<le> 5 * dt s"
  shows "update_control_surface held_keys s control increase_key decrease_key maximum = 0"
proof (cases "control > 0")
  case True
  with assms(4) have "\<bar>control - 5 * dt s\<bar> < 10 * dt s" by linarith
  with True assms(1,2) show ?thesis by (simp add: update_control_surface_def)
next
  case False
  with assms(3) have neg: "control < 0" by simp
  with assms(4) have "\<bar>control + 5 * dt s\<bar> < 10 * dt s" by linarith
  with neg assms(1,2) show ?thesis by (simp add: update_control_surface_def)
qed

theorem spring_back_snaps_to_zero_witness:
  "update_control_surface (\<lambda>k. False) (init sample_rows) 0.05 ''w'' ''s'' 5 = 0
   \<and> update_control_surface (\<lambda>k. False) (init sample_rows) (- 0.08) ''e'' ''q'' 5 = 0"
proof -
  have d: "dt (init sample_rows) = 0.01667" by (simp add: init_def)
  have "\<bar>0.05::real\<bar> \<le> 5 * dt (init sample_rows)" "\<bar>- 0.08::real\<bar> \<le> 5 * dt (init sample_rows)"
    by (simp_all add: d)
  then show ?thesis
    using spring_back_snaps_to_zero [of "\<lambda>k. False" "''w''" "''s''" "0.05" "init sample_rows" 5]
      spring_back_snaps_to_zero [of "\<lambda>k. False" "''e''" "''q''" "- 0.08" "init sample_rows" 5]
    by simp
qed

text \<open>
  C8. The update of a control is meant to keep the value within \<open>[- 5, 5]\<close>. The code only
  tests \<^verbatim>\<open>control < maximum\<close> before it adds \<open>3 dt\<close> and never clamps the sum: with the
  key \<^verbatim>\<open>w\<close> held from the initial state, the elevator is \<open>99 * 0.05001 = 4.95099\<close> after 99
  ticks, still below 5, and the next tick takes it to 5.001.
\<close>

theorem elevator_exceeds_maximum:
  "elevator ((update_control_inputs (\<lambda>k. k = ''w'') ^^ 100) (init sample_rows)) = 5.001"
  using hold_w_elevator [of 100 sample_rows] by simp

text \<open>
  C9. On a simulator of the fixed layout whose matrix \<open>A\<close> has the entry 50 in row 1,
  column 2, with both state vectors at zero, the controls at 0 and no key held: after the
  updates of the controls and of the state vectors, the true airspeed \<open>v\<close> that
  \<^verbatim>\<open>update_plane\<close> computes is 50, and so is the forward velocity \<open>fv\<close>; and a whole tick
  of the running simulator appends the velocity 50 to the recorded series.
\<close>

theorem cruise_speed_is_reported:
  assumes sh: "has_shape (A s) 4 4" "has_shape (B s) 4 1" "has_shape (C s) 4 4"
      "has_shape (D s) 4 2"
    and cruise: "elem (A s) 1 2 = Inr 50"
    and zero: "state_long s = Mat zero4" "state_lat s = Mat zero4"
    and controls: "elevator s = 0" "aileron s = 0" "rudder s = 0"
    and keys: "\<forall>k. \<not> held_keys k"
  shows "(\<exists>s' k. update_state_vectors (update_control_inputs held_keys s) = Inr s'
            \<and> plane_kinematics s' = Inr k \<and> v k = 50 \<and> fv k = 50)
       \<and> (run s \<and> dt s \<noteq> 0 \<longrightarrow>
            (\<exists>s'. update eng held_keys s = Inr s'
               \<and> velocity_data s' = velocity_data s @ [50]))"
proof (intro conjI impI)
  have "elem (A s) 1 2 = Inr (cell (A s) 1 2)"
    by (rule elem_cell [OF sh(1)]) simp_all
  with cruise have c: "cell (A s) 1 2 = 50" by simp
  have z: "cell zero4 0 0 = 0" by (simp add: cell_zero4)
  have "update_control_inputs held_keys s = s"
    using controls keys by (rule update_control_inputs_rest)
  moreover have "update_state_vectors s = Inr s"
    using sh zero controls by (rule update_state_vectors_zero)
  moreover have "\<exists>k. plane_kinematics s = Inr k \<and> v k = 50 \<and> fv k = 50"
    using c z
    by (simp add: plane_kinematics_ok [OF zero(1) has_shape_zero4 zero(2) has_shape_zero4 sh(1)])
  ultimately show "\<exists>s' k. update_state_vectors (update_control_inputs held_keys s) = Inr s'
            \<and> plane_kinematics s' = Inr k \<and> v k = 50 \<and> fv k = 50"
    by simp
next
  assume "run s \<and> dt s \<noteq> 0"
  then have run: "run s" and dt: "dt s \<noteq> 0" by simp_all
  have "elem (A s) 1 2 = Inr (cell (A s) 1 2)"
    by (rule elem_cell [OF sh(1)]) simp_all
  with cruise have c: "cell (A s) 1 2 = 50" by simp
  define t where "t = s\<lparr>flight_time := flight_time s + dt s\<rparr>"
  have ok: "shapes_ok s"
    using sh zero has_shape_zero4 by (simp add: shapes_ok_def is_vec4_def)
  have t0: "update_control_inputs held_keys t = t"
    using controls keys by (intro update_control_inputs_rest) (simp_all add: t_def)
  have t1: "update_state_vectors t = Inr t"
    using sh zero controls by (intro update_state_vectors_zero) (simp_all add: t_def)
  from update_running [OF ok run dt, of held_keys eng] obtain nl nt s' where
    r: "update_state_vectors (update_control_inputs held_keys t)
          = Inr ((update_control_inputs held_keys t)\<lparr>state_long := Mat nl, state_lat := Mat nt\<rparr>)"
    and u: "update eng held_keys s = Inr s'"
      "velocity_data s' = velocity_data s @ [cell nl 0 0 + cell (A s) 1 2]"
    unfolding t_def by blast
  from r have "t\<lparr>state_long := Mat nl, state_lat := Mat nt\<rparr> = t"
    by (simp add: t0 t1)
  then have "state_long (t\<lparr>state_long := Mat nl, state_lat := Mat nt\<rparr>) = state_long t"
    by simp
  then have "nl = zero4" using zero by (simp add: t_def)
  with u c show "\<exists>s'. update eng held_keys s = Inr s' \<and> velocity_data s' = velocity_data s @ [50]"
    using cell_zero4 [of 0] by simp
qed

theorem cruise_speed_is_reported_witness:
  "(\<exists>s' k. update_state_vectors (update_control_inputs (\<lambda>k. False) (init sample_rows)) = Inr s'
        \<and> plane_kinematics s' = Inr k \<and> v k = 50 \<and> fv k = 50)
   \<and> (\<exists>s'. update level_engine (\<lambda>k. False) (init sample_rows) = Inr s'
        \<and> velocity_data s' = velocity_data (init sample_rows) @ [50])"
  using cruise_speed_is_reported
          [OF init_sample_facts(1-4) init_sample_facts(12) init_sample_facts(5-9),
           of "\<lambda>k. False" level_engine]
    init_sample_facts(10,11)
  by simp

section \<open>Properties of the password hash\<close>

text \<open>
  C10. For every password and every integer salt, \<open>hash_password\<close> returns a non-negative
  integer strictly below 387942806485727, so the stored hash fits in 63 bits.
\<close>

theorem hash_password_range:
  "0 \<le> hash_password password salt
   \<and> hash_password password salt < 387942806485727
   \<and> hash_password password salt < 2 ^ 63"
proof -
  have lo: "0 \<le> hash_password password salt"
    unfolding hash_password_def by simp
  have hi: "hash_password password salt < 387942806485727"
    unfolding hash_password_def by simp
  have "(387942806485727::int) < 2 ^ 63" by simp
  with hi have "hash_password password salt < 2 ^ 63" by linarith
  with lo hi show ?thesis by simp
qed

end
